theory Spec2Isabelle
  imports Main "HOL-Library.AList"
begin

section \<open>Data model of the E-Boekhouden client\<close>

text \<open>
  Values that travel as JSON (what \<open>response.json()\<close> returns, what goes into a payload or
  into query parameters). JSON null is Python's \<open>None\<close>. A JSON object is kept as an
  association list in insertion order, as a Python dict is. Floating-point numbers do not
  occur in anything the client inspects and are left out.
\<close>

datatype pyval =
    PNone
  | PBool bool
  | PInt int
  | PStr string
  | PList "pyval list"
  | PDict "(string \<times> pyval) list"

text \<open>Python truthiness, the test behind \<open>if not x\<close> and \<open>if x or y\<close>.\<close>

fun truthy :: "pyval \<Rightarrow> bool" where
  "truthy PNone = False"
| "truthy (PBool b) = b"
| "truthy (PInt i) = (i \<noteq> 0)"
| "truthy (PStr s) = (s \<noteq> [])"
| "truthy (PList xs) = (xs \<noteq> [])"
| "truthy (PDict d) = (d \<noteq> [])"

text \<open>Truthiness of an argument annotated \<open>Optional[str]\<close>: \<open>None\<close> and \<open>""\<close> are false.\<close>

fun str_truthy :: "string option \<Rightarrow> bool" where
  "str_truthy None = False"
| "str_truthy (Some s) = (s \<noteq> [])"

text \<open>
  The exceptions the client raises or lets through. \<open>ValueError\<close> carries its message,
  \<open>HTTPError\<close> the status code of the response that caused it.
\<close>

datatype error =
    ValueError string
  | HTTPError int
  | JSONDecodeError
  | AttributeError
  | TypeError

text \<open>enums.py: \<open>DateFilterOperator\<close> and the \<open>.value\<close> of each member.\<close>

datatype DateFilterOperator = EQ | NOT_EQ | GT | GTE | LT | LTE | RANGE

fun operator_value :: "DateFilterOperator \<Rightarrow> string" where
  "operator_value EQ = ''eq''"
| "operator_value NOT_EQ = ''not_eq''"
| "operator_value GT = ''gt''"
| "operator_value GTE = ''gte''"
| "operator_value LT = ''lt''"
| "operator_value LTE = ''lte''"
| "operator_value RANGE = ''range''"

text \<open>
  The attributes of \<open>EBoekhoudenClient\<close>. \<open>session_token\<close> holds whatever
  \<open>response.json().get("token")\<close> returned; \<open>PNone\<close> is the absent token.
\<close>

record client =
  api_version :: string
  api_url :: string
  access_token :: pyval
  source :: pyval
  session_token :: pyval

definition BASE_URL :: string where
  "BASE_URL = ''https://api.e-boekhouden.nl''"

text \<open>
  The attributes as \<open>__init__\<close> leaves them just before it calls \<open>_authenticate\<close>, given
  the two fields \<open>_parse_service_account_file\<close> read from the credentials.
\<close>

definition new_client :: "pyval \<Rightarrow> pyval \<Rightarrow> string \<Rightarrow> client" where
  "new_client tok src version =
     \<lparr>api_version = version, api_url = BASE_URL @ ''/'' @ version,
      access_token = tok, source = src, session_token = PNone\<rparr>"

definition PAGE_LIMIT :: int where
  "PAGE_LIMIT = 100"

section \<open>The HTTP transport\<close>

text \<open>
  A value of a header. All headers of the client are string literals except
  \<open>Authorization\<close>, the f-string \<open>f"Bearer {self.session_token}"\<close>: \<open>Bearer v\<close> stands
  for the text \<open>Bearer\<close>, a space, and \<open>str(v)\<close> (for a string token, the token itself).
\<close>

datatype header_value = Text string | Bearer pyval

datatype http_method = GET | POST | DELETE

record request =
  http_method :: http_method
  url :: string
  headers :: "(string \<times> header_value) list"
  params :: "(string \<times> pyval) list"
  json_payload :: pyval
  timeout :: nat

text \<open>
  A response: its status code and the decoded body, \<open>None\<close> when the body is not JSON
  (then \<open>response.json()\<close> raises).
\<close>

record response =
  status_code :: int
  body :: "pyval option"

text \<open>
  The remote service as the client sees it: the answer to the n-th request issued
  (counting from 0), as a mocked sequence of responses gives it. The world state threaded
  through every operation is the list of requests issued so far. Every request is
  answered: timeouts and connection errors of the transport are outside the model.
\<close>

type_synonym transport = "nat \<Rightarrow> response"

definition requests_send :: "transport \<Rightarrow> request \<Rightarrow> request list \<Rightarrow> response \<times> request list" where
  "requests_send t rq w = (t (length w), w @ [rq])"

definition requests_get ::
  "transport \<Rightarrow> string \<Rightarrow> (string \<times> header_value) list \<Rightarrow> (string \<times> pyval) list \<Rightarrow>
   request list \<Rightarrow> response \<times> request list" where
  "requests_get t u hs ps w =
     requests_send t \<lparr>http_method = GET, url = u, headers = hs, params = ps,
                      json_payload = PNone, timeout = 10\<rparr> w"

definition requests_post ::
  "transport \<Rightarrow> string \<Rightarrow> pyval \<Rightarrow> (string \<times> header_value) list \<Rightarrow>
   request list \<Rightarrow> response \<times> request list" where
  "requests_post t u payload hs w =
     requests_send t \<lparr>http_method = POST, url = u, headers = hs, params = [],
                      json_payload = payload, timeout = 10\<rparr> w"

definition requests_delete ::
  "transport \<Rightarrow> string \<Rightarrow> (string \<times> header_value) list \<Rightarrow>
   request list \<Rightarrow> response \<times> request list" where
  "requests_delete t u hs w =
     requests_send t \<lparr>http_method = DELETE, url = u, headers = hs, params = [],
                      json_payload = PNone, timeout = 10\<rparr> w"

text \<open>\<open>response.json()\<close>: the decoded body, or the decoding error.\<close>

definition response_json :: "response \<Rightarrow> error + pyval" where
  "response_json r = (case body r of None \<Rightarrow> Inl JSONDecodeError | Some v \<Rightarrow> Inr v)"

text \<open>
  \<open>response.raise_for_status()\<close> of the requests library: it raises \<open>HTTPError\<close> for a
  client error (400 to 499) or a server error (500 to 599) and returns \<open>None\<close> for every
  other status code.
\<close>

definition raise_for_status :: "response \<Rightarrow> error + unit" where
  "raise_for_status r =
     (if 400 \<le> status_code r \<and> status_code r < 600 then Inl (HTTPError (status_code r))
      else Inr ())"

text \<open>
  \<open>d.get(key, default)\<close>: defined on a dict only; on any other JSON value the attribute
  lookup fails.
\<close>

fun dict_get :: "pyval \<Rightarrow> string \<Rightarrow> pyval \<Rightarrow> error + pyval" where
  "dict_get (PDict d) k dflt = Inr (case map_of d k of None \<Rightarrow> dflt | Some v \<Rightarrow> v)"
| "dict_get _ k dflt = Inl AttributeError"

text \<open>
  What \<open>list.extend(items)\<close> appends: the elements of a list, the characters of a string,
  the keys of a dict; any other value is not iterable.
\<close>

fun py_iter :: "pyval \<Rightarrow> error + pyval list" where
  "py_iter (PList xs) = Inr xs"
| "py_iter (PStr s) = Inr (map (\<lambda>c. PStr [c]) s)"
| "py_iter (PDict d) = Inr (map (\<lambda>kv. PStr (fst kv)) d)"
| "py_iter _ = Inl TypeError"

section \<open>Session lifecycle\<close>

text \<open>
  \<open>_authenticate\<close>: the result, the client afterwards and the requests issued. (Isabelle
  names cannot start with an underscore; the leading underscore of the private methods is
  dropped.)
\<close>

definition authenticate ::
  "transport \<Rightarrow> client \<Rightarrow> request list \<Rightarrow> (error + unit) \<times> client \<times> request list" where
  "authenticate t c w =
     (let u = api_url c @ ''/session'';
          payload = PDict [(''accessToken'', access_token c), (''source'', source c)];
          hs = [(''accept'', Text ''application/json''),
                (''Content-Type'', Text ''application/json'')];
          (r, w') = requests_post t u payload hs w
      in if status_code r = 200 then
           (case response_json r of
              Inl e \<Rightarrow> (Inl e, c, w')
            | Inr b \<Rightarrow>
                (case dict_get b ''token'' PNone of
                   Inl e \<Rightarrow> (Inl e, c, w')
                 | Inr tok \<Rightarrow> (Inr (), c\<lparr>session_token := tok\<rparr>, w')))
         else
           (case raise_for_status r of
              Inl e \<Rightarrow> (Inl e, c, w')
            | Inr _ \<Rightarrow> (Inr (), c, w')))"

text \<open>
  How an f-string renders an argument annotated \<open>Optional[str]\<close>: a string as itself,
  \<open>None\<close> as the text \<open>None\<close>.
\<close>

fun format_str :: "string option \<Rightarrow> string" where
  "format_str None = ''None''"
| "format_str (Some s) = s"

text \<open>\<open>_get_date_filter\<close>: the one-entry dict of the query parameter, or the error raised.\<close>

definition get_date_filter ::
  "string \<Rightarrow> DateFilterOperator option \<Rightarrow> string option \<Rightarrow> string option \<Rightarrow>
   error + (string \<times> pyval) list" where
  "get_date_filter parameter operator start_date end_date =
     (case operator of
        None \<Rightarrow> Inl (ValueError (''Operator is required for date filtering on '' @ parameter))
      | Some opr \<Rightarrow>
          if opr = RANGE then
            (if \<not> str_truthy start_date \<or> \<not> str_truthy end_date then
               Inl (ValueError ''Range operator requires both start_date and end_date'')
             else Inr [(parameter @ ''['' @ operator_value opr @ '']'',
                        PStr (format_str start_date @ '','' @ format_str end_date))])
          else if \<not> str_truthy start_date then
            Inl (ValueError (''Operator '' @ operator_value opr @ '' requires a start_date value''))
          else Inr [(parameter @ ''['' @ operator_value opr @ '']'', PStr (format_str start_date))])"

text \<open>\<open>_get_headers\<close>.\<close>

definition get_headers :: "client \<Rightarrow> error + (string \<times> header_value) list" where
  "get_headers c =
     (if \<not> truthy (session_token c) then
        Inl (ValueError ''Authentication required. Call authenticate() first.'')
      else Inr [(''accept'', Text ''application/json''),
                (''Content-Type'', Text ''application/json''),
                (''Authorization'', Bearer (session_token c))])"

section \<open>Resource accessors\<close>

definition get_cost_centers ::
  "transport \<Rightarrow> client \<Rightarrow> request list \<Rightarrow> (error + pyval) \<times> request list" where
  "get_cost_centers t c w =
     (let u = api_url c @ ''/costcenter'' in
      case get_headers c of
        Inl e \<Rightarrow> (Inl e, w)
      | Inr hs \<Rightarrow>
          (let (r, w') = requests_get t u hs [] w
           in if status_code r = 200 then (response_json r, w')
              else (case raise_for_status r of
                      Inl e \<Rightarrow> (Inl e, w')
                    | Inr _ \<Rightarrow> (Inr (PDict []), w'))))"

definition get_cost_center ::
  "transport \<Rightarrow> client \<Rightarrow> string \<Rightarrow> request list \<Rightarrow> (error + pyval) \<times> request list" where
  "get_cost_center t c cc_id w =
     (let u = api_url c @ ''/costcenter/'' @ cc_id in
      case get_headers c of
        Inl e \<Rightarrow> (Inl e, w)
      | Inr hs \<Rightarrow>
          (let (r, w') = requests_get t u hs [] w
           in if status_code r = 200 then (response_json r, w')
              else (case raise_for_status r of
                      Inl e \<Rightarrow> (Inl e, w')
                    | Inr _ \<Rightarrow> (Inr (PDict []), w'))))"

definition get_invoices ::
  "transport \<Rightarrow> client \<Rightarrow> request list \<Rightarrow> (error + pyval) \<times> request list" where
  "get_invoices t c w =
     (let u = api_url c @ ''/invoice'' in
      case get_headers c of
        Inl e \<Rightarrow> (Inl e, w)
      | Inr hs \<Rightarrow>
          (let (r, w') = requests_get t u hs [] w
           in if status_code r = 200 then (response_json r, w')
              else (case raise_for_status r of
                      Inl e \<Rightarrow> (Inl e, w')
                    | Inr _ \<Rightarrow> (Inr (PDict []), w'))))"

definition get_ledgers ::
  "transport \<Rightarrow> client \<Rightarrow> request list \<Rightarrow> (error + pyval) \<times> request list" where
  "get_ledgers t c w =
     (let u = api_url c @ ''/ledger'' in
      case get_headers c of
        Inl e \<Rightarrow> (Inl e, w)
      | Inr hs \<Rightarrow>
          (let (r, w') = requests_get t u hs [] w
           in if status_code r = 200 then (response_json r, w')
              else (case raise_for_status r of
                      Inl e \<Rightarrow> (Inl e, w')
                    | Inr _ \<Rightarrow> (Inr (PDict []), w'))))"

definition get_ledger ::
  "transport \<Rightarrow> client \<Rightarrow> string \<Rightarrow> request list \<Rightarrow> (error + pyval) \<times> request list" where
  "get_ledger t c led_id w =
     (let u = api_url c @ ''/ledger/'' @ led_id in
      case get_headers c of
        Inl e \<Rightarrow> (Inl e, w)
      | Inr hs \<Rightarrow>
          (let (r, w') = requests_get t u hs [] w
           in if status_code r = 200 then (response_json r, w')
              else (case raise_for_status r of
                      Inl e \<Rightarrow> (Inl e, w')
                    | Inr _ \<Rightarrow> (Inr (PDict []), w'))))"

definition get_mutation ::
  "transport \<Rightarrow> client \<Rightarrow> string \<Rightarrow> request list \<Rightarrow> (error + pyval) \<times> request list" where
  "get_mutation t c mutation_id w =
     (let u = api_url c @ ''/mutation/'' @ mutation_id in
      case get_headers c of
        Inl e \<Rightarrow> (Inl e, w)
      | Inr hs \<Rightarrow>
          (let (r, w') = requests_get t u hs [] w
           in if status_code r = 200 then (response_json r, w')
              else (case raise_for_status r of
                      Inl e \<Rightarrow> (Inl e, w')
                    | Inr _ \<Rightarrow> (Inr (PDict []), w'))))"

definition get_outstanding_invoices ::
  "transport \<Rightarrow> client \<Rightarrow> request list \<Rightarrow> (error + pyval) \<times> request list" where
  "get_outstanding_invoices t c w =
     (let u = api_url c @ ''/mutation/invoice/outstanding'' in
      case get_headers c of
        Inl e \<Rightarrow> (Inl e, w)
      | Inr hs \<Rightarrow>
          (let (r, w') = requests_get t u hs [] w
           in if status_code r = 200 then (response_json r, w')
              else (case raise_for_status r of
                      Inl e \<Rightarrow> (Inl e, w')
                    | Inr _ \<Rightarrow> (Inr (PDict []), w'))))"

definition get_relation ::
  "transport \<Rightarrow> client \<Rightarrow> string \<Rightarrow> request list \<Rightarrow> (error + pyval) \<times> request list" where
  "get_relation t c rel_id w =
     (let u = api_url c @ ''/relation/'' @ rel_id in
      case get_headers c of
        Inl e \<Rightarrow> (Inl e, w)
      | Inr hs \<Rightarrow>
          (let (r, w') = requests_get t u hs [] w
           in if status_code r = 200 then (response_json r, w')
              else (case raise_for_status r of
                      Inl e \<Rightarrow> (Inl e, w')
                    | Inr _ \<Rightarrow> (Inr (PDict []), w'))))"

text \<open>\<open>get_relations\<close> has no call of \<open>raise_for_status\<close>.\<close>

definition get_relations ::
  "transport \<Rightarrow> client \<Rightarrow> request list \<Rightarrow> (error + pyval) \<times> request list" where
  "get_relations t c w =
     (let u = api_url c @ ''/relation'' in
      case get_headers c of
        Inl e \<Rightarrow> (Inl e, w)
      | Inr hs \<Rightarrow>
          (let (r, w') = requests_get t u hs [] w
           in if status_code r = 200 then (response_json r, w')
              else (Inr (PDict []), w')))"

text \<open>\<open>close\<close>: the result, the client afterwards and the requests issued.\<close>

definition close ::
  "transport \<Rightarrow> client \<Rightarrow> request list \<Rightarrow> (error + bool) \<times> client \<times> request list" where
  "close t c w =
     (let u = api_url c @ ''/session'' in
      case get_headers c of
        Inl e \<Rightarrow> (Inl e, c, w)
      | Inr hs \<Rightarrow>
          (let (r, w') = requests_delete t u hs w
           in if status_code r = 204 then (Inr True, c\<lparr>session_token := PNone\<rparr>, w')
              else (Inr False, c, w')))"

section \<open>Paginated retrieval\<close>

text \<open>
  The \<open>while True\<close> loop of \<open>get_mutations\<close>, with its loop state (the \<open>params\<close> dict,
  \<open>all_items\<close>, \<open>page_offset\<close>) and the requests issued so far. The loop has no bound of
  its own: \<open>None\<close> is the run that never returns.
\<close>

partial_function (option) mutations_loop ::
  "transport \<Rightarrow> client \<Rightarrow> string \<Rightarrow> (string \<times> pyval) list \<Rightarrow> pyval list \<Rightarrow> int \<Rightarrow>
   request list \<Rightarrow> ((error + pyval) \<times> request list) option" where
  "mutations_loop t c u ps all_items page_offset w =
     (let ps1 = AList.update ''offset'' (PInt page_offset) ps;
          ps2 = AList.update ''limit'' (PInt PAGE_LIMIT) ps1
      in case get_headers c of
           Inl e \<Rightarrow> Some (Inl e, w)
         | Inr hs \<Rightarrow>
             (let (r, w') = requests_get t u hs ps2 w
              in if status_code r = 200 then
                   (case response_json r of
                      Inl e \<Rightarrow> Some (Inl e, w')
                    | Inr b \<Rightarrow>
                        (case dict_get b ''items'' (PList []) of
                           Inl e \<Rightarrow> Some (Inl e, w')
                         | Inr items \<Rightarrow>
                             if \<not> truthy items then
                               Some (Inr (PDict [(''items'', PList all_items)]), w')
                             else
                               (case py_iter items of
                                  Inl e \<Rightarrow> Some (Inl e, w')
                                | Inr xs \<Rightarrow>
                                    mutations_loop t c u ps2 (all_items @ xs)
                                      (page_offset + PAGE_LIMIT) w')))
                 else
                   (case raise_for_status r of
                      Inl e \<Rightarrow> Some (Inl e, w')
                    | Inr _ \<Rightarrow> mutations_loop t c u ps2 all_items page_offset w')))"

declare mutations_loop.simps [code]

definition get_mutations ::
  "transport \<Rightarrow> client \<Rightarrow> string option \<Rightarrow> string option \<Rightarrow> DateFilterOperator option \<Rightarrow>
   request list \<Rightarrow> ((error + pyval) \<times> request list) option" where
  "get_mutations t c start_date end_date date_range w =
     (let u = api_url c @ ''/mutation'' in
      if str_truthy start_date \<or> str_truthy end_date then
        (case get_date_filter ''date'' date_range start_date end_date of
           Inl e \<Rightarrow> Some (Inl e, w)
         | Inr ps \<Rightarrow> mutations_loop t c u ps [] 0 w)
      else mutations_loop t c u [] [] 0 w)"

section \<open>Properties of the paginated retrieval\<close>

text \<open>
  Writing \<open>offset\<close> and \<open>limit\<close> into a \<open>params\<close> dict that already holds them replaces
  the two values in place, so every iteration sends the filter entries followed by the
  current offset and the limit.
\<close>

lemma update_update_other:
  "a \<noteq> b \<Longrightarrow> AList.update a x (AList.update b y (AList.update a z al)) = AList.update b y (AList.update a x al)"
  by (induction al) auto

lemma params_again:
  "AList.update ''limit'' l (AList.update ''offset'' x (AList.update ''limit'' l (AList.update ''offset'' z al)))
   = AList.update ''limit'' l (AList.update ''offset'' x al)"
proof -
  have "AList.update ''offset'' x (AList.update ''limit'' l (AList.update ''offset'' z al))
        = AList.update ''limit'' l (AList.update ''offset'' x al)"
    by (rule update_update_other) simp
  then show ?thesis by simp
qed

lemma mutations_loop_unauthenticated:
  "get_headers c = Inl e \<Longrightarrow> mutations_loop t c u ps acc off w = Some (Inl e, w)"
  by (subst mutations_loop.simps) simp

lemma mutations_loop_last_page:
  assumes "get_headers c = Inr hs"
    and "status_code (t (length w)) = 200"
    and "body (t (length w)) = Some (PDict d)"
    and "map_of d ''items'' = None \<or> map_of d ''items'' = Some (PList [])"
  shows "mutations_loop t c u ps acc off w =
         Some (Inr (PDict [(''items'', PList acc)]),
               w @ [\<lparr>http_method = GET, url = u, headers = hs,
                      params = AList.update ''limit'' (PInt PAGE_LIMIT) (AList.update ''offset'' (PInt off) ps),
                      json_payload = PNone, timeout = 10\<rparr>])"
  using assms
  by (subst mutations_loop.simps)
     (auto simp: requests_get_def requests_send_def response_json_def Let_def)

lemma mutations_loop_next_page:
  assumes "get_headers c = Inr hs"
    and "status_code (t (length w)) = 200"
    and "body (t (length w)) = Some (PDict d)"
    and "map_of d ''items'' = Some (PList p)"
    and "p \<noteq> []"
  shows "mutations_loop t c u ps acc off w =
         mutations_loop t c u
           (AList.update ''limit'' (PInt PAGE_LIMIT) (AList.update ''offset'' (PInt off) ps))
           (acc @ p) (off + PAGE_LIMIT)
           (w @ [\<lparr>http_method = GET, url = u, headers = hs,
                      params = AList.update ''limit'' (PInt PAGE_LIMIT) (AList.update ''offset'' (PInt off) ps),
                      json_payload = PNone, timeout = 10\<rparr>])"
  using assms
  by (subst mutations_loop.simps)
     (auto simp: requests_get_def requests_send_def response_json_def Let_def)

lemma mutations_loop_pages:
  assumes hs: "get_headers c = Inr hs"
    and inv: "\<forall>x. AList.update ''limit'' (PInt PAGE_LIMIT) (AList.update ''offset'' x ps)
                = AList.update ''limit'' (PInt PAGE_LIMIT) (AList.update ''offset'' x p0)"
    and pages: "\<forall>i<length pages. status_code (t (length w + i)) = 200 \<and>
                  (\<exists>d. body (t (length w + i)) = Some (PDict d) \<and>
                       map_of d ''items'' = Some (PList (pages ! i))) \<and> pages ! i \<noteq> []"
    and last: "status_code (t (length w + length pages)) = 200"
              "body (t (length w + length pages)) = Some (PDict dl)"
              "map_of dl ''items'' = None \<or> map_of dl ''items'' = Some (PList [])"
  shows "mutations_loop t c u ps acc off w =
         Some (Inr (PDict [(''items'', PList (acc @ concat pages))]),
               w @ map (\<lambda>i. \<lparr>http_method = GET, url = u, headers = hs,
                      params = AList.update ''limit'' (PInt PAGE_LIMIT)
                                 (AList.update ''offset'' (PInt (off + PAGE_LIMIT * int i)) p0),
                      json_payload = PNone, timeout = 10\<rparr>) [0..<Suc (length pages)])"
  using inv pages last
proof (induction pages arbitrary: ps acc off w)
  case Nil
  then show ?case
    using mutations_loop_last_page [where c = c and hs = hs and t = t and w = w and d = dl] hs
    by simp
next
  case (Cons p rest)
  let ?ps2 = "AList.update ''limit'' (PInt PAGE_LIMIT) (AList.update ''offset'' (PInt off) ps)"
  let ?rq = "\<lparr>http_method = GET, url = u, headers = hs, params = ?ps2,
               json_payload = PNone, timeout = 10\<rparr>"
  from Cons.prems(2) have first: "status_code (t (length w)) = 200"
    "\<exists>d. body (t (length w)) = Some (PDict d) \<and> map_of d ''items'' = Some (PList p)" "p \<noteq> []"
    by force+
  then obtain d where d: "body (t (length w)) = Some (PDict d)" "map_of d ''items'' = Some (PList p)"
    by blast
  have step: "mutations_loop t c u ps acc off w =
              mutations_loop t c u ?ps2 (acc @ p) (off + PAGE_LIMIT) (w @ [?rq])"
    using mutations_loop_next_page [where c = c and hs = hs and t = t and w = w and d = d and p = p]
      hs first(1,3) d by simp
  have ps2: "?ps2 = AList.update ''limit'' (PInt PAGE_LIMIT) (AList.update ''offset'' (PInt off) p0)"
    using Cons.prems(1) by simp
  have inv': "\<forall>x. AList.update ''limit'' (PInt PAGE_LIMIT) (AList.update ''offset'' x ?ps2)
                = AList.update ''limit'' (PInt PAGE_LIMIT) (AList.update ''offset'' x p0)"
    unfolding ps2 by (simp only: params_again) simp
  have pages': "\<forall>i<length rest. status_code (t (length (w @ [?rq]) + i)) = 200 \<and>
                  (\<exists>d. body (t (length (w @ [?rq]) + i)) = Some (PDict d) \<and>
                       map_of d ''items'' = Some (PList (rest ! i))) \<and> rest ! i \<noteq> []"
  proof (intro allI impI)
    fix i assume "i < length rest"
    then have "Suc i < length (p # rest)" by simp
    with Cons.prems(2) have "status_code (t (length w + Suc i)) = 200 \<and>
                  (\<exists>d. body (t (length w + Suc i)) = Some (PDict d) \<and>
                       map_of d ''items'' = Some (PList ((p # rest) ! Suc i))) \<and> (p # rest) ! Suc i \<noteq> []"
      by blast
    then show "status_code (t (length (w @ [?rq]) + i)) = 200 \<and>
                  (\<exists>d. body (t (length (w @ [?rq]) + i)) = Some (PDict d) \<and>
                       map_of d ''items'' = Some (PList (rest ! i))) \<and> rest ! i \<noteq> []"
      by simp
  qed
  have last': "status_code (t (length (w @ [?rq]) + length rest)) = 200"
              "body (t (length (w @ [?rq]) + length rest)) = Some (PDict dl)"
    using Cons.prems(3,4) by simp_all
  have IH: "mutations_loop t c u ?ps2 (acc @ p) (off + PAGE_LIMIT) (w @ [?rq]) =
         Some (Inr (PDict [(''items'', PList ((acc @ p) @ concat rest))]),
               (w @ [?rq]) @ map (\<lambda>i. \<lparr>http_method = GET, url = u, headers = hs,
                      params = AList.update ''limit'' (PInt PAGE_LIMIT)
                                 (AList.update ''offset'' (PInt ((off + PAGE_LIMIT) + PAGE_LIMIT * int i)) p0),
                      json_payload = PNone, timeout = 10\<rparr>) [0..<Suc (length rest)])"
    by (rule Cons.IH [OF inv' pages' last' Cons.prems(5)])
  have shift: "\<And>i. off + PAGE_LIMIT + PAGE_LIMIT * int i = off + PAGE_LIMIT * int (Suc i)"
    by (simp add: algebra_simps)
  show ?case
    unfolding step IH
    by (subst (2) map_upt_Suc) (simp add: ps2 shift del: upt_Suc)
qed

text \<open>
  Claim C1. With a session token and (if dates are given) a valid date filter, when the
  service answers with non-empty pages \<open>pages\<close> and then a page without items, every
  response with status 200, \<open>get_mutations\<close> returns: its result is the concatenation of
  the pages in order, and it has issued exactly one request per page, the i-th with offset
  \<open>100 * i\<close> and limit 100 after the filter entries. The instance below has pages of sizes
  100, 100, 37 and 0 (237 items, offsets 0, 100, 200, 300) and a first page of size 0 (one
  request, empty result).
\<close>

theorem get_mutations_accumulates_pages:
  assumes tok: "truthy (session_token c)"
    and filter: "if str_truthy start_date \<or> str_truthy end_date
                 then get_date_filter ''date'' date_range start_date end_date = Inr p0
                 else p0 = []"
    and pages: "\<forall>i<length pages. status_code (t (length w + i)) = 200 \<and>
                  (\<exists>d. body (t (length w + i)) = Some (PDict d) \<and>
                       map_of d ''items'' = Some (PList (pages ! i))) \<and> pages ! i \<noteq> []"
    and last: "status_code (t (length w + length pages)) = 200"
              "body (t (length w + length pages)) = Some (PDict dl)"
              "map_of dl ''items'' = None \<or> map_of dl ''items'' = Some (PList [])"
  shows "get_mutations t c start_date end_date date_range w =
         Some (Inr (PDict [(''items'', PList (concat pages))]),
               w @ map (\<lambda>i. \<lparr>http_method = GET, url = api_url c @ ''/mutation'',
                      headers = [(''accept'', Text ''application/json''),
                                 (''Content-Type'', Text ''application/json''),
                                 (''Authorization'', Bearer (session_token c))],
                      params = AList.update ''limit'' (PInt 100)
                                 (AList.update ''offset'' (PInt (100 * int i)) p0),
                      json_payload = PNone, timeout = 10\<rparr>) [0..<Suc (length pages)])"
proof -
  let ?hs = "[(''accept'', Text ''application/json''),
              (''Content-Type'', Text ''application/json''),
              (''Authorization'', Bearer (session_token c))]"
  have hs: "get_headers c = Inr ?hs"
    using tok by (simp add: get_headers_def)
  have loop: "mutations_loop t c (api_url c @ ''/mutation'') p0 [] 0 w =
         Some (Inr (PDict [(''items'', PList ([] @ concat pages))]),
               w @ map (\<lambda>i. \<lparr>http_method = GET, url = api_url c @ ''/mutation'', headers = ?hs,
                      params = AList.update ''limit'' (PInt PAGE_LIMIT)
                                 (AList.update ''offset'' (PInt (0 + PAGE_LIMIT * int i)) p0),
                      json_payload = PNone, timeout = 10\<rparr>) [0..<Suc (length pages)])"
    by (rule mutations_loop_pages [OF hs _ pages last]) simp
  have start: "get_mutations t c start_date end_date date_range w =
               mutations_loop t c (api_url c @ ''/mutation'') p0 [] 0 w"
    using filter by (auto simp: get_mutations_def split: if_splits)
  show ?thesis
    unfolding start loop by (simp add: PAGE_LIMIT_def)
qed

theorem get_mutations_accumulates_pages_witness:
  "get_mutations
     (\<lambda>n. \<lparr>status_code = 200,
            body = Some (PDict [(''items'',
                     PList ([replicate 100 (PInt 1), replicate 100 (PInt 2), replicate 37 (PInt 3), []] ! min n 3))])\<rparr>)
     ((new_client (PStr ''key'') (PStr ''app'') ''v1'')\<lparr>session_token := PStr ''tok''\<rparr>)
     None None None []
   = Some (Inr (PDict [(''items'',
              PList (replicate 100 (PInt 1) @ replicate 100 (PInt 2) @ replicate 37 (PInt 3)))]),
           map (\<lambda>off. \<lparr>http_method = GET, url = ''https://api.e-boekhouden.nl/v1/mutation'',
                  headers = [(''accept'', Text ''application/json''),
                             (''Content-Type'', Text ''application/json''),
                             (''Authorization'', Bearer (PStr ''tok''))],
                  params = [(''offset'', PInt off), (''limit'', PInt 100)],
                  json_payload = PNone, timeout = 10\<rparr>) [0, 100, 200, 300])
   \<and> length (replicate 100 (PInt 1) @ replicate 100 (PInt 2) @ replicate 37 (PInt 3)) = 237
   \<and> get_mutations
     (\<lambda>n. \<lparr>status_code = 200, body = Some (PDict [(''items'', PList [])])\<rparr>)
     ((new_client (PStr ''key'') (PStr ''app'') ''v1'')\<lparr>session_token := PStr ''tok''\<rparr>)
     None None None []
   = Some (Inr (PDict [(''items'', PList [])]),
           [\<lparr>http_method = GET, url = ''https://api.e-boekhouden.nl/v1/mutation'',
                  headers = [(''accept'', Text ''application/json''),
                             (''Content-Type'', Text ''application/json''),
                             (''Authorization'', Bearer (PStr ''tok''))],
                  params = [(''offset'', PInt 0), (''limit'', PInt 100)],
                  json_payload = PNone, timeout = 10\<rparr>])"
proof -
  let ?c = "(new_client (PStr ''key'') (PStr ''app'') ''v1'')\<lparr>session_token := PStr ''tok''\<rparr>"
  let ?pages = "[replicate 100 (PInt 1), replicate 100 (PInt 2), replicate 37 (PInt 3)]"
  let ?t = "\<lambda>n. \<lparr>status_code = 200,
            body = Some (PDict [(''items'',
                     PList ([replicate 100 (PInt 1), replicate 100 (PInt 2), replicate 37 (PInt 3), []] ! min n 3))])\<rparr>"
  let ?e = "\<lambda>n::nat. \<lparr>status_code = 200, body = Some (PDict [(''items'', PList [])])\<rparr>"
  have tok: "truthy (session_token ?c)" by simp
  have pages: "\<forall>i<length ?pages. status_code (?t (length ([]::request list) + i)) = 200 \<and>
                  (\<exists>d. body (?t (length ([]::request list) + i)) = Some (PDict d) \<and>
                       map_of d ''items'' = Some (PList (?pages ! i))) \<and> ?pages ! i \<noteq> []"
    by (auto simp: less_Suc_eq numeral_3_eq_3)
  have a: "get_mutations ?t ?c None None None [] = Some (Inr (PDict [(''items'', PList (concat ?pages))]),
               [] @ map (\<lambda>i. \<lparr>http_method = GET, url = api_url ?c @ ''/mutation'',
                      headers = [(''accept'', Text ''application/json''),
                                 (''Content-Type'', Text ''application/json''),
                                 (''Authorization'', Bearer (session_token ?c))],
                      params = AList.update ''limit'' (PInt 100)
                                 (AList.update ''offset'' (PInt (100 * int i)) []),
                      json_payload = PNone, timeout = 10\<rparr>) [0..<Suc (length ?pages)])"
    by (rule get_mutations_accumulates_pages [OF tok _ pages, where dl = "[(''items'', PList [])]"]) simp_all
  have b: "get_mutations ?e ?c None None None [] = Some (Inr (PDict [(''items'', PList (concat []))]),
               [] @ map (\<lambda>i. \<lparr>http_method = GET, url = api_url ?c @ ''/mutation'',
                      headers = [(''accept'', Text ''application/json''),
                                 (''Content-Type'', Text ''application/json''),
                                 (''Authorization'', Bearer (session_token ?c))],
                      params = AList.update ''limit'' (PInt 100)
                                 (AList.update ''offset'' (PInt (100 * int i)) []),
                      json_payload = PNone, timeout = 10\<rparr>) [0..<Suc (length ([]::pyval list list))])"
    by (rule get_mutations_accumulates_pages [OF tok, where dl = "[(''items'', PList [])]"]) simp_all
  show ?thesis
    unfolding a b by (simp add: new_client_def BASE_URL_def upt_rec [of _ "Suc _"])
qed

section \<open>Properties of the resource accessors\<close>

text \<open>
  Every accessor builds its headers with \<open>get_headers\<close> before it calls the transport: when
  that fails, the accessor fails with the same error and the list of requests is unchanged.
\<close>

lemma get_cost_centers_unauthenticated:
  "get_headers c = Inl e \<Longrightarrow> get_cost_centers t c w = (Inl e, w)"
  by (simp add: get_cost_centers_def)

lemma get_cost_center_unauthenticated:
  "get_headers c = Inl e \<Longrightarrow> get_cost_center t c cc_id w = (Inl e, w)"
  by (simp add: get_cost_center_def)

lemma get_invoices_unauthenticated:
  "get_headers c = Inl e \<Longrightarrow> get_invoices t c w = (Inl e, w)"
  by (simp add: get_invoices_def)

lemma get_ledgers_unauthenticated:
  "get_headers c = Inl e \<Longrightarrow> get_ledgers t c w = (Inl e, w)"
  by (simp add: get_ledgers_def)

lemma get_ledger_unauthenticated:
  "get_headers c = Inl e \<Longrightarrow> get_ledger t c led_id w = (Inl e, w)"
  by (simp add: get_ledger_def)

lemma get_mutation_unauthenticated:
  "get_headers c = Inl e \<Longrightarrow> get_mutation t c mutation_id w = (Inl e, w)"
  by (simp add: get_mutation_def)

lemma get_outstanding_invoices_unauthenticated:
  "get_headers c = Inl e \<Longrightarrow> get_outstanding_invoices t c w = (Inl e, w)"
  by (simp add: get_outstanding_invoices_def)

lemma get_relation_unauthenticated:
  "get_headers c = Inl e \<Longrightarrow> get_relation t c rel_id w = (Inl e, w)"
  by (simp add: get_relation_def)

lemma get_relations_unauthenticated:
  "get_headers c = Inl e \<Longrightarrow> get_relations t c w = (Inl e, w)"
  by (simp add: get_relations_def)

text \<open>
  With headers, an accessor issues exactly one GET request and decides on the status code
  of the answer.
\<close>

lemma get_cost_centers_outcome:
  "get_headers c = Inr hs \<Longrightarrow>
   get_cost_centers t c w =
     (if status_code (t (length w)) = 200 then response_json (t (length w))
      else case raise_for_status (t (length w)) of Inl e \<Rightarrow> Inl e | Inr _ \<Rightarrow> Inr (PDict []),
      w @ [\<lparr>http_method = GET, url = api_url c @ ''/costcenter'', headers = hs, params = [],
             json_payload = PNone, timeout = 10\<rparr>])"
  by (simp add: get_cost_centers_def requests_get_def requests_send_def split: sum.split)

lemma get_cost_center_outcome:
  "get_headers c = Inr hs \<Longrightarrow>
   get_cost_center t c cc_id w =
     (if status_code (t (length w)) = 200 then response_json (t (length w))
      else case raise_for_status (t (length w)) of Inl e \<Rightarrow> Inl e | Inr _ \<Rightarrow> Inr (PDict []),
      w @ [\<lparr>http_method = GET, url = api_url c @ ''/costcenter/'' @ cc_id, headers = hs, params = [],
             json_payload = PNone, timeout = 10\<rparr>])"
  by (simp add: get_cost_center_def requests_get_def requests_send_def split: sum.split)

lemma get_invoices_outcome:
  "get_headers c = Inr hs \<Longrightarrow>
   get_invoices t c w =
     (if status_code (t (length w)) = 200 then response_json (t (length w))
      else case raise_for_status (t (length w)) of Inl e \<Rightarrow> Inl e | Inr _ \<Rightarrow> Inr (PDict []),
      w @ [\<lparr>http_method = GET, url = api_url c @ ''/invoice'', headers = hs, params = [],
             json_payload = PNone, timeout = 10\<rparr>])"
  by (simp add: get_invoices_def requests_get_def requests_send_def split: sum.split)

lemma get_ledgers_outcome:
  "get_headers c = Inr hs \<Longrightarrow>
   get_ledgers t c w =
     (if status_code (t (length w)) = 200 then response_json (t (length w))
      else case raise_for_status (t (length w)) of Inl e \<Rightarrow> Inl e | Inr _ \<Rightarrow> Inr (PDict []),
      w @ [\<lparr>http_method = GET, url = api_url c @ ''/ledger'', headers = hs, params = [],
             json_payload = PNone, timeout = 10\<rparr>])"
  by (simp add: get_ledgers_def requests_get_def requests_send_def split: sum.split)

lemma get_ledger_outcome:
  "get_headers c = Inr hs \<Longrightarrow>
   get_ledger t c led_id w =
     (if status_code (t (length w)) = 200 then response_json (t (length w))
      else case raise_for_status (t (length w)) of Inl e \<Rightarrow> Inl e | Inr _ \<Rightarrow> Inr (PDict []),
      w @ [\<lparr>http_method = GET, url = api_url c @ ''/ledger/'' @ led_id, headers = hs, params = [],
             json_payload = PNone, timeout = 10\<rparr>])"
  by (simp add: get_ledger_def requests_get_def requests_send_def split: sum.split)

lemma get_mutation_outcome:
  "get_headers c = Inr hs \<Longrightarrow>
   get_mutation t c mutation_id w =
     (if status_code (t (length w)) = 200 then response_json (t (length w))
      else case raise_for_status (t (length w)) of Inl e \<Rightarrow> Inl e | Inr _ \<Rightarrow> Inr (PDict []),
      w @ [\<lparr>http_method = GET, url = api_url c @ ''/mutation/'' @ mutation_id, headers = hs, params = [],
             json_payload = PNone, timeout = 10\<rparr>])"
  by (simp add: get_mutation_def requests_get_def requests_send_def split: sum.split)

lemma get_outstanding_invoices_outcome:
  "get_headers c = Inr hs \<Longrightarrow>
   get_outstanding_invoices t c w =
     (if status_code (t (length w)) = 200 then response_json (t (length w))
      else case raise_for_status (t (length w)) of Inl e \<Rightarrow> Inl e | Inr _ \<Rightarrow> Inr (PDict []),
      w @ [\<lparr>http_method = GET, url = api_url c @ ''/mutation/invoice/outstanding'', headers = hs, params = [],
             json_payload = PNone, timeout = 10\<rparr>])"
  by (simp add: get_outstanding_invoices_def requests_get_def requests_send_def split: sum.split)

lemma get_relation_outcome:
  "get_headers c = Inr hs \<Longrightarrow>
   get_relation t c rel_id w =
     (if status_code (t (length w)) = 200 then response_json (t (length w))
      else case raise_for_status (t (length w)) of Inl e \<Rightarrow> Inl e | Inr _ \<Rightarrow> Inr (PDict []),
      w @ [\<lparr>http_method = GET, url = api_url c @ ''/relation/'' @ rel_id, headers = hs, params = [],
             json_payload = PNone, timeout = 10\<rparr>])"
  by (simp add: get_relation_def requests_get_def requests_send_def split: sum.split)

lemma get_relations_outcome:
  "get_headers c = Inr hs \<Longrightarrow>
   get_relations t c w =
     (if status_code (t (length w)) = 200 then response_json (t (length w))
      else Inr (PDict []),
      w @ [\<lparr>http_method = GET, url = api_url c @ ''/relation'', headers = hs, params = [],
             json_payload = PNone, timeout = 10\<rparr>])"
  by (simp add: get_relations_def requests_get_def requests_send_def split: sum.split)

section \<open>Properties of the date filter and the headers\<close>

text \<open>
  Claim C2. \<open>_get_date_filter\<close> raises a \<open>ValueError\<close> exactly when a required input is
  missing, where missing is what the code tests with \<open>not\<close>: \<open>None\<close> or the empty string.
  Without an operator the error names the parameter, whatever the bounds are; with the
  range operator it raises exactly when the start or the end date is missing; with any
  other operator exactly when the start date is missing. It raises nothing else.
\<close>

theorem get_date_filter_raises_iff_missing:
  "get_date_filter p None sd ed =
     Inl (ValueError (''Operator is required for date filtering on '' @ p))
   \<and> ((\<exists>m. get_date_filter p (Some RANGE) sd ed = Inl (ValueError m)) \<longleftrightarrow>
        (sd = None \<or> sd = Some [] \<or> ed = None \<or> ed = Some []))
   \<and> (opr \<noteq> RANGE \<longrightarrow>
        ((\<exists>m. get_date_filter p (Some opr) sd ed = Inl (ValueError m)) \<longleftrightarrow>
         (sd = None \<or> sd = Some [])))
   \<and> (\<forall>e. get_date_filter p operator sd ed = Inl e \<longrightarrow> (\<exists>m. e = ValueError m))"
proof -
  have sd: "str_truthy sd \<longleftrightarrow> \<not> (sd = None \<or> sd = Some [])"
    by (cases sd) auto
  have ed: "str_truthy ed \<longleftrightarrow> \<not> (ed = None \<or> ed = Some [])"
    by (cases ed) auto
  show ?thesis
    unfolding get_date_filter_def sd ed
    by (auto split: option.splits)
qed

theorem get_date_filter_raises_iff_missing_witness:
  "GTE \<noteq> RANGE
   \<and> (\<exists>m. get_date_filter ''date'' (Some GTE) None (Some ''2024-12-31'') = Inl (ValueError m))
   \<and> (\<exists>m. get_date_filter ''date'' (Some RANGE) (Some ''2024-01-01'') None = Inl (ValueError m))
   \<and> get_date_filter ''date'' None (Some ''2024-01-01'') (Some ''2024-12-31'') =
       Inl (ValueError ''Operator is required for date filtering on date'')"
  using get_date_filter_raises_iff_missing [of "''date''" None "Some ''2024-12-31''" GTE None]
        get_date_filter_raises_iff_missing [of "''date''" "Some ''2024-01-01''" None GTE None]
        get_date_filter_raises_iff_missing [of "''date''" "Some ''2024-01-01''" "Some ''2024-12-31''" GTE None]
  by simp

text \<open>
  Claim C3. With the required bounds given (non-empty strings), \<open>_get_date_filter\<close> returns
  a dict with the single entry \<open>parameter[operator] = start\<close> for every operator other than
  range, and \<open>parameter[range] = start,end\<close> for the range operator. The operator appears in
  the key as the text enums.py gives it: \<open>eq\<close>, \<open>not_eq\<close>, \<open>gt\<close>, \<open>gte\<close>, \<open>lt\<close>, \<open>lte\<close>,
  \<open>range\<close>; the seven cases below are all the operators there are.
\<close>

theorem get_date_filter_output_format:
  "s \<noteq> [] \<Longrightarrow>
   get_date_filter p (Some EQ) (Some s) ed = Inr [(p @ ''[eq]'', PStr s)]
   \<and> get_date_filter p (Some NOT_EQ) (Some s) ed = Inr [(p @ ''[not_eq]'', PStr s)]
   \<and> get_date_filter p (Some GT) (Some s) ed = Inr [(p @ ''[gt]'', PStr s)]
   \<and> get_date_filter p (Some GTE) (Some s) ed = Inr [(p @ ''[gte]'', PStr s)]
   \<and> get_date_filter p (Some LT) (Some s) ed = Inr [(p @ ''[lt]'', PStr s)]
   \<and> get_date_filter p (Some LTE) (Some s) ed = Inr [(p @ ''[lte]'', PStr s)]
   \<and> (e \<noteq> [] \<longrightarrow>
        get_date_filter p (Some RANGE) (Some s) (Some e) =
          Inr [(p @ ''[range]'', PStr (s @ '','' @ e))])"
  by (simp add: get_date_filter_def)

theorem get_date_filter_output_format_witness:
  "get_date_filter ''date'' (Some EQ) (Some ''2024-01-01'') None =
     Inr [(''date[eq]'', PStr ''2024-01-01'')]
   \<and> get_date_filter ''date'' (Some NOT_EQ) (Some ''2024-01-01'') None =
     Inr [(''date[not_eq]'', PStr ''2024-01-01'')]
   \<and> get_date_filter ''date'' (Some GT) (Some ''2024-01-01'') None =
     Inr [(''date[gt]'', PStr ''2024-01-01'')]
   \<and> get_date_filter ''date'' (Some GTE) (Some ''2024-01-01'') None =
     Inr [(''date[gte]'', PStr ''2024-01-01'')]
   \<and> get_date_filter ''date'' (Some LT) (Some ''2024-01-01'') None =
     Inr [(''date[lt]'', PStr ''2024-01-01'')]
   \<and> get_date_filter ''date'' (Some LTE) (Some ''2024-01-01'') None =
     Inr [(''date[lte]'', PStr ''2024-01-01'')]
   \<and> get_date_filter ''date'' (Some RANGE) (Some ''2024-01-01'') (Some ''2024-12-31'') =
     Inr [(''date[range]'', PStr ''2024-01-01,2024-12-31'')]"
  using get_date_filter_output_format [of "''2024-01-01''" "''date''" None "''2024-12-31''"]
  by simp

text \<open>
  \<open>get_mutations\<close> on a client without a session token: it fails with a \<open>ValueError\<close> and
  issues no request. The error is the one of the date filter when dates are given and the
  filter rejects them, and the one of \<open>get_headers\<close> otherwise.
\<close>

lemma get_mutations_unauthenticated:
  assumes "get_headers c = Inl e"
  shows "get_mutations t c sd ed dr w =
         Some (Inl (case (if str_truthy sd \<or> str_truthy ed
                          then get_date_filter ''date'' dr sd ed else Inr [])
                    of Inl e' \<Rightarrow> e' | Inr _ \<Rightarrow> e), w)"
  using assms
  by (simp add: get_mutations_def mutations_loop_unauthenticated split: sum.split)

lemma get_date_filter_error:
  "get_date_filter p operator sd ed = Inl e \<Longrightarrow> \<exists>m. e = ValueError m"
  by (auto simp: get_date_filter_def split: option.splits if_splits)

text \<open>
  Claim C4. On a client whose session token is absent (\<open>None\<close>, or any value the test
  \<open>not self.session_token\<close> takes for absent, such as the empty string), \<open>_get_headers\<close>
  raises the \<open>ValueError\<close> asking for authentication, and every resource operation raises a
  \<open>ValueError\<close> with the list of requests issued unchanged: the error of \<open>_get_headers\<close>, or
  for \<open>get_mutations\<close> possibly the error of the date filter, which is built first. With a
  session token present, \<open>_get_headers\<close> returns exactly the three headers.
\<close>

theorem resource_calls_require_session_token:
  "(\<not> truthy (session_token c) \<longrightarrow>
      get_headers c = Inl (ValueError ''Authentication required. Call authenticate() first.'')
      \<and> get_cost_centers t c w = (Inl (ValueError ''Authentication required. Call authenticate() first.''), w)
      \<and> get_cost_center t c cc_id w = (Inl (ValueError ''Authentication required. Call authenticate() first.''), w)
      \<and> get_invoices t c w = (Inl (ValueError ''Authentication required. Call authenticate() first.''), w)
      \<and> get_ledgers t c w = (Inl (ValueError ''Authentication required. Call authenticate() first.''), w)
      \<and> get_ledger t c led_id w = (Inl (ValueError ''Authentication required. Call authenticate() first.''), w)
      \<and> get_mutation t c mutation_id w = (Inl (ValueError ''Authentication required. Call authenticate() first.''), w)
      \<and> get_outstanding_invoices t c w = (Inl (ValueError ''Authentication required. Call authenticate() first.''), w)
      \<and> get_relation t c rel_id w = (Inl (ValueError ''Authentication required. Call authenticate() first.''), w)
      \<and> get_relations t c w = (Inl (ValueError ''Authentication required. Call authenticate() first.''), w)
      \<and> (\<exists>m. get_mutations t c start_date end_date date_range w = Some (Inl (ValueError m), w)))
   \<and> (truthy (session_token c) \<longrightarrow>
      get_headers c = Inr [(''accept'', Text ''application/json''),
                           (''Content-Type'', Text ''application/json''),
                           (''Authorization'', Bearer (session_token c))])"
proof (intro conjI impI)
  assume "truthy (session_token c)"
  then show "get_headers c = Inr [(''accept'', Text ''application/json''),
                           (''Content-Type'', Text ''application/json''),
                           (''Authorization'', Bearer (session_token c))]"
    by (simp add: get_headers_def)
next
  assume absent: "\<not> truthy (session_token c)"
  then show h: "get_headers c = Inl (ValueError ''Authentication required. Call authenticate() first.'')"
    by (simp add: get_headers_def)
  show "\<exists>m. get_mutations t c start_date end_date date_range w = Some (Inl (ValueError m), w)"
    unfolding get_mutations_unauthenticated [OF h]
    by (auto split: sum.split dest: get_date_filter_error)
qed (simp_all add: get_headers_def get_cost_centers_unauthenticated
       get_cost_center_unauthenticated get_invoices_unauthenticated
       get_ledgers_unauthenticated get_ledger_unauthenticated get_mutation_unauthenticated
       get_outstanding_invoices_unauthenticated get_relation_unauthenticated
       get_relations_unauthenticated)

theorem resource_calls_require_session_token_witness:
  "\<not> truthy (session_token (new_client (PStr ''key'') (PStr ''app'') ''v1''))
   \<and> get_headers (new_client (PStr ''key'') (PStr ''app'') ''v1'') = Inl (ValueError ''Authentication required. Call authenticate() first.'')
   \<and> get_relations (\<lambda>n. \<lparr>status_code = 200, body = Some (PDict [])\<rparr>)
         (new_client (PStr ''key'') (PStr ''app'') ''v1'') [] = (Inl (ValueError ''Authentication required. Call authenticate() first.''), [])
   \<and> truthy (session_token ((new_client (PStr ''key'') (PStr ''app'') ''v1'')\<lparr>session_token := PStr ''tok''\<rparr>))
   \<and> get_headers ((new_client (PStr ''key'') (PStr ''app'') ''v1'')\<lparr>session_token := PStr ''tok''\<rparr>) =
       Inr [(''accept'', Text ''application/json''),
            (''Content-Type'', Text ''application/json''),
            (''Authorization'', Bearer (PStr ''tok''))]"
  using resource_calls_require_session_token
          [of "new_client (PStr ''key'') (PStr ''app'') ''v1''"
              "\<lambda>n. \<lparr>status_code = 200, body = Some (PDict [])\<rparr>" "[]"]
        resource_calls_require_session_token
          [of "(new_client (PStr ''key'') (PStr ''app'') ''v1'')\<lparr>session_token := PStr ''tok''\<rparr>"]
  by (simp add: new_client_def)

text \<open>
  Claim C8. On a client with a session token, \<open>close\<close> issues one DELETE request. If the
  answer has status 204 it clears the session token and returns \<open>True\<close>; on every other
  status it returns \<open>False\<close>, raises nothing and leaves the client, session token included,
  as it was.
\<close>

theorem close_outcome:
  "truthy (session_token c) \<Longrightarrow>
   (status_code (t (length w)) = 204 \<longrightarrow>
      close t c w =
        (Inr True, c\<lparr>session_token := PNone\<rparr>,
         w @ [\<lparr>http_method = DELETE, url = api_url c @ ''/session'',
                headers = [(''accept'', Text ''application/json''),
                           (''Content-Type'', Text ''application/json''),
                           (''Authorization'', Bearer (session_token c))],
                params = [], json_payload = PNone, timeout = 10\<rparr>]))
   \<and> (status_code (t (length w)) \<noteq> 204 \<longrightarrow>
      close t c w =
        (Inr False, c,
         w @ [\<lparr>http_method = DELETE, url = api_url c @ ''/session'',
                headers = [(''accept'', Text ''application/json''),
                           (''Content-Type'', Text ''application/json''),
                           (''Authorization'', Bearer (session_token c))],
                params = [], json_payload = PNone, timeout = 10\<rparr>]))"
  by (simp add: close_def get_headers_def requests_delete_def requests_send_def)

theorem close_outcome_witness:
  "fst (close (\<lambda>n. \<lparr>status_code = 204, body = None\<rparr>)
         ((new_client (PStr ''key'') (PStr ''app'') ''v1'')\<lparr>session_token := PStr ''tok''\<rparr>) [])
     = Inr True
   \<and> session_token (fst (snd (close (\<lambda>n. \<lparr>status_code = 204, body = None\<rparr>)
         ((new_client (PStr ''key'') (PStr ''app'') ''v1'')\<lparr>session_token := PStr ''tok''\<rparr>) [])))
     = PNone
   \<and> fst (close (\<lambda>n. \<lparr>status_code = 500, body = None\<rparr>)
         ((new_client (PStr ''key'') (PStr ''app'') ''v1'')\<lparr>session_token := PStr ''tok''\<rparr>) [])
     = Inr False
   \<and> session_token (fst (snd (close (\<lambda>n. \<lparr>status_code = 500, body = None\<rparr>)
         ((new_client (PStr ''key'') (PStr ''app'') ''v1'')\<lparr>session_token := PStr ''tok''\<rparr>) [])))
     = PStr ''tok''"
  using close_outcome
          [of "(new_client (PStr ''key'') (PStr ''app'') ''v1'')\<lparr>session_token := PStr ''tok''\<rparr>"
              "\<lambda>n. \<lparr>status_code = 204, body = None\<rparr>" "[]"]
        close_outcome
          [of "(new_client (PStr ''key'') (PStr ''app'') ''v1'')\<lparr>session_token := PStr ''tok''\<rparr>"
              "\<lambda>n. \<lparr>status_code = 500, body = None\<rparr>" "[]"]
  by simp

text \<open>
  Claim C10. On a client whose session token is absent, \<open>close\<close> raises the \<open>ValueError\<close>
  of \<open>_get_headers\<close>: it returns no boolean, issues no request and leaves the client as it
  was.
\<close>

theorem close_requires_session_token:
  "\<not> truthy (session_token c) \<Longrightarrow>
   close t c w = (Inl (ValueError ''Authentication required. Call authenticate() first.''), c, w)"
  by (simp add: close_def get_headers_def)

theorem close_requires_session_token_witness:
  "close (\<lambda>n. \<lparr>status_code = 204, body = None\<rparr>)
     (new_client (PStr ''key'') (PStr ''app'') ''v1'') []
   = (Inl (ValueError ''Authentication required. Call authenticate() first.''), new_client (PStr ''key'') (PStr ''app'') ''v1'', [])"
  using close_requires_session_token
          [of "new_client (PStr ''key'') (PStr ''app'') ''v1''"
              "\<lambda>n. \<lparr>status_code = 204, body = None\<rparr>" "[]"]
  by (simp add: new_client_def)

section \<open>Properties of the session lifecycle\<close>

text \<open>
  \<open>_authenticate\<close> issues one POST request with the two credentials. On status 200 with
  a JSON object as body it stores what \<open>get("token")\<close> gives, \<open>None\<close> when the key is
  missing; on a status from 400 to 599 it raises \<open>HTTPError\<close> and leaves the client as it
  was.
\<close>

lemma authenticate_ok:
  assumes "status_code (t (length w)) = 200"
    and "body (t (length w)) = Some (PDict d)"
  shows "authenticate t c w =
         (Inr (), c\<lparr>session_token := (case map_of d ''token'' of None \<Rightarrow> PNone | Some v \<Rightarrow> v)\<rparr>,
          w @ [\<lparr>http_method = POST, url = api_url c @ ''/session'',
                 headers = [(''accept'', Text ''application/json''),
                            (''Content-Type'', Text ''application/json'')],
                 params = [],
                 json_payload = PDict [(''accessToken'', access_token c), (''source'', source c)],
                 timeout = 10\<rparr>])"
  using assms
  by (simp add: authenticate_def requests_post_def requests_send_def response_json_def)

lemma authenticate_http_error:
  assumes "400 \<le> status_code (t (length w))" and "status_code (t (length w)) < 600"
  shows "authenticate t c w =
         (Inl (HTTPError (status_code (t (length w)))), c,
          w @ [\<lparr>http_method = POST, url = api_url c @ ''/session'',
                 headers = [(''accept'', Text ''application/json''),
                            (''Content-Type'', Text ''application/json'')],
                 params = [],
                 json_payload = PDict [(''accessToken'', access_token c), (''source'', source c)],
                 timeout = 10\<rparr>])"
  using assms
  by (simp add: authenticate_def requests_post_def requests_send_def raise_for_status_def)

text \<open>
  Claim C5. The claim holds for status 200 (\<open>authenticate_ok\<close>) and for the statuses
  \<open>raise_for_status\<close> treats as errors (\<open>authenticate_http_error\<close>), and in every failing
  case the session token stays as it was. It fails for the other statuses: on 204 the
  else-branch, entered as a failed authentication, calls \<open>raise_for_status\<close>, which does
  not raise, and \<open>_authenticate\<close> returns normally with the session token still absent.
\<close>

theorem authenticate_status_204_returns_normally:
  "authenticate (\<lambda>n. \<lparr>status_code = 204, body = None\<rparr>)
     (new_client (PStr ''key'') (PStr ''app'') ''v1'') []
   = (Inr (), new_client (PStr ''key'') (PStr ''app'') ''v1'',
      [\<lparr>http_method = POST, url = ''https://api.e-boekhouden.nl/v1/session'',
         headers = [(''accept'', Text ''application/json''),
                    (''Content-Type'', Text ''application/json'')],
         params = [],
         json_payload = PDict [(''accessToken'', PStr ''key''), (''source'', PStr ''app'')],
         timeout = 10\<rparr>])"
  by (simp add: authenticate_def requests_post_def requests_send_def raise_for_status_def
        new_client_def BASE_URL_def)

text \<open>
  In the loop of \<open>get_mutations\<close> a status from 400 to 599 ends the retrieval at once with
  \<open>HTTPError\<close>: the items gathered so far are not returned and no further request is
  issued.
\<close>

lemma mutations_loop_http_error:
  assumes "get_headers c = Inr hs"
    and "400 \<le> status_code (t (length w))" and "status_code (t (length w)) < 600"
  shows "mutations_loop t c u ps acc off w =
         Some (Inl (HTTPError (status_code (t (length w)))),
               w @ [\<lparr>http_method = GET, url = u, headers = hs,
                      params = AList.update ''limit'' (PInt PAGE_LIMIT) (AList.update ''offset'' (PInt off) ps),
                      json_payload = PNone, timeout = 10\<rparr>])"
  using assms
  by (subst mutations_loop.simps)
     (auto simp: requests_get_def requests_send_def raise_for_status_def Let_def)

text \<open>
  On any other status than 200 outside 400 to 599 the loop goes round again: it sends the
  same request with the same offset.
\<close>

lemma mutations_loop_retry:
  assumes "get_headers c = Inr hs"
    and "status_code (t (length w)) \<noteq> 200"
    and "\<not> (400 \<le> status_code (t (length w)) \<and> status_code (t (length w)) < 600)"
  shows "mutations_loop t c u ps acc off w =
         mutations_loop t c u
           (AList.update ''limit'' (PInt PAGE_LIMIT) (AList.update ''offset'' (PInt off) ps))
           acc off
           (w @ [\<lparr>http_method = GET, url = u, headers = hs,
                      params = AList.update ''limit'' (PInt PAGE_LIMIT) (AList.update ''offset'' (PInt off) ps),
                      json_payload = PNone, timeout = 10\<rparr>])"
  using assms
  by (subst mutations_loop.simps)
     (auto simp: requests_get_def requests_send_def raise_for_status_def Let_def)

text \<open>
  When every answer has such a status, the loop never returns: \<open>get_mutations\<close> has no
  result.
\<close>

lemma mutations_loop_never_returns:
  assumes hs: "get_headers c = Inr hs"
    and bad: "\<And>n. status_code (t n) \<noteq> 200 \<and>
                  \<not> (400 \<le> status_code (t n) \<and> status_code (t n) < 600)"
  shows "mutations_loop t c u ps acc off w = None"
proof (cases "mutations_loop t c u ps acc off w")
  case None
  then show ?thesis .
next
  case (Some y)
  have "\<not> (get_headers c = Inr hs \<and>
            (\<forall>n. status_code (t n) \<noteq> 200 \<and>
                 \<not> (400 \<le> status_code (t n) \<and> status_code (t n) < 600)))"
  proof (rule mutations_loop.raw_induct
           [where P = "\<lambda>t c u ps acc off w y. \<not> (get_headers c = Inr hs \<and>
              (\<forall>n. status_code (t n) \<noteq> 200 \<and>
                   \<not> (400 \<le> status_code (t n) \<and> status_code (t n) < 600)))",
            OF _ Some])
    fix loop :: "transport \<Rightarrow> client \<Rightarrow> string \<Rightarrow> (string \<times> pyval) list \<Rightarrow> pyval list \<Rightarrow> int \<Rightarrow>
                 request list \<Rightarrow> ((error + pyval) \<times> request list) option"
    fix t c u ps acc off w y
    assume IH: "\<And>t c u ps acc off w y. loop t c u ps acc off w = Some y \<Longrightarrow>
                  \<not> (get_headers c = Inr hs \<and>
                     (\<forall>n. status_code (t n) \<noteq> 200 \<and>
                          \<not> (400 \<le> status_code (t n) \<and> status_code (t n) < 600)))"
    assume body: "(let ps1 = AList.update ''offset'' (PInt off) ps;
          ps2 = AList.update ''limit'' (PInt PAGE_LIMIT) ps1
      in case get_headers c of
           Inl e \<Rightarrow> Some (Inl e, w)
         | Inr hs \<Rightarrow>
             (let (r, w') = requests_get t u hs ps2 w
              in if status_code r = 200 then
                   (case response_json r of
                      Inl e \<Rightarrow> Some (Inl e, w')
                    | Inr b \<Rightarrow>
                        (case dict_get b ''items'' (PList []) of
                           Inl e \<Rightarrow> Some (Inl e, w')
                         | Inr items \<Rightarrow>
                             if \<not> truthy items then
                               Some (Inr (PDict [(''items'', PList acc)]), w')
                             else
                               (case py_iter items of
                                  Inl e \<Rightarrow> Some (Inl e, w')
                                | Inr xs \<Rightarrow>
                                    loop t c u ps2 (acc @ xs) (off + PAGE_LIMIT) w')))
                 else
                   (case raise_for_status r of
                      Inl e \<Rightarrow> Some (Inl e, w')
                    | Inr _ \<Rightarrow> loop t c u ps2 acc off w'))) = Some y"
    show "\<not> (get_headers c = Inr hs \<and>
            (\<forall>n. status_code (t n) \<noteq> 200 \<and>
                 \<not> (400 \<le> status_code (t n) \<and> status_code (t n) < 600)))"
    proof
      assume a: "get_headers c = Inr hs \<and>
                 (\<forall>n. status_code (t n) \<noteq> 200 \<and>
                      \<not> (400 \<le> status_code (t n) \<and> status_code (t n) < 600))"
      with body have "loop t c u
          (AList.update ''limit'' (PInt PAGE_LIMIT) (AList.update ''offset'' (PInt off) ps))
          acc off
          (w @ [\<lparr>http_method = GET, url = u, headers = hs,
                  params = AList.update ''limit'' (PInt PAGE_LIMIT)
                             (AList.update ''offset'' (PInt off) ps),
                  json_payload = PNone, timeout = 10\<rparr>]) = Some y"
        by (simp add: requests_get_def requests_send_def raise_for_status_def Let_def)
      from IH [OF this] a show False
        by blast
    qed
  qed
  with hs bad show ?thesis by blast
qed

lemma get_mutations_never_returns:
  assumes "truthy (session_token c)"
    and "\<And>n. status_code (t n) \<noteq> 200 \<and>
              \<not> (400 \<le> status_code (t n) \<and> status_code (t n) < 600)"
  shows "get_mutations t c None None None w = None"
proof -
  obtain hs where "get_headers c = Inr hs"
    using assms(1) by (simp add: get_headers_def)
  then show ?thesis
    using assms(2) by (simp add: get_mutations_def mutations_loop_never_returns)
qed

text \<open>
  Claim C6. The claim holds for the statuses from 400 to 599 (\<open>mutations_loop_http_error\<close>).
  It fails for the other statuses that are not 200: when the first page request is
  answered with status 204 and the next with an empty page, \<open>get_mutations\<close> raises
  nothing, issues a second request with the same offset 0 and returns a result (and when
  every answer has status 204 it never returns, \<open>get_mutations_never_returns\<close>).
\<close>

theorem get_mutations_status_204_continues:
  "get_mutations
     (\<lambda>n. if n = 0 then \<lparr>status_code = 204, body = None\<rparr>
           else \<lparr>status_code = 200, body = Some (PDict [(''items'', PList [])])\<rparr>)
     ((new_client (PStr ''key'') (PStr ''app'') ''v1'')\<lparr>session_token := PStr ''tok''\<rparr>)
     None None None []
   = Some (Inr (PDict [(''items'', PList [])]),
           [\<lparr>http_method = GET, url = ''https://api.e-boekhouden.nl/v1/mutation'',
              headers = [(''accept'', Text ''application/json''),
                         (''Content-Type'', Text ''application/json''),
                         (''Authorization'', Bearer (PStr ''tok''))],
              params = [(''offset'', PInt 0), (''limit'', PInt 100)],
              json_payload = PNone, timeout = 10\<rparr>,
            \<lparr>http_method = GET, url = ''https://api.e-boekhouden.nl/v1/mutation'',
              headers = [(''accept'', Text ''application/json''),
                         (''Content-Type'', Text ''application/json''),
                         (''Authorization'', Bearer (PStr ''tok''))],
              params = [(''offset'', PInt 0), (''limit'', PInt 100)],
              json_payload = PNone, timeout = 10\<rparr>])"
proof -
  let ?c = "(new_client (PStr ''key'') (PStr ''app'') ''v1'')\<lparr>session_token := PStr ''tok''\<rparr>"
  let ?t = "\<lambda>n::nat. if n = 0 then \<lparr>status_code = 204, body = None\<rparr>
           else \<lparr>status_code = 200, body = Some (PDict [(''items'', PList [])])\<rparr>"
  let ?hs = "[(''accept'', Text ''application/json''),
              (''Content-Type'', Text ''application/json''),
              (''Authorization'', Bearer (PStr ''tok''))]"
  have hs: "get_headers ?c = Inr ?hs"
    by (simp add: get_headers_def)
  show ?thesis
    unfolding get_mutations_def
    apply (simp add: mutations_loop_retry [where hs = ?hs and t = ?t] hs)
    apply (subst mutations_loop_last_page [where hs = ?hs and t = ?t and d = "[(''items'', PList [])]"])
    apply (simp_all add: get_headers_def new_client_def BASE_URL_def PAGE_LIMIT_def Let_def)
    done
qed

section \<open>Properties of the accessors without pagination\<close>

text \<open>
  Called with a session token, every accessor without pagination returns the decoded body
  of the response unchanged when the status is 200, and every accessor that calls
  \<open>raise_for_status\<close> (all but \<open>get_relations\<close>) raises \<open>HTTPError\<close> on a status from 400 to
  599.
\<close>

lemma accessors_pass_body_or_raise:
  assumes "truthy (session_token c)"
  shows "(status_code (t (length w)) = 200 \<and> body (t (length w)) = Some b \<longrightarrow>
      fst (get_cost_centers t c w) = Inr b \<and>
      fst (get_cost_center t c cc_id w) = Inr b \<and>
      fst (get_invoices t c w) = Inr b \<and>
      fst (get_ledgers t c w) = Inr b \<and>
      fst (get_ledger t c led_id w) = Inr b \<and>
      fst (get_mutation t c mutation_id w) = Inr b \<and>
      fst (get_outstanding_invoices t c w) = Inr b \<and>
      fst (get_relation t c rel_id w) = Inr b \<and>
      fst (get_relations t c w) = Inr b)
   \<and> (400 \<le> status_code (t (length w)) \<and> status_code (t (length w)) < 600 \<longrightarrow>
      fst (get_cost_centers t c w) = Inl (HTTPError (status_code (t (length w)))) \<and>
      fst (get_cost_center t c cc_id w) = Inl (HTTPError (status_code (t (length w)))) \<and>
      fst (get_invoices t c w) = Inl (HTTPError (status_code (t (length w)))) \<and>
      fst (get_ledgers t c w) = Inl (HTTPError (status_code (t (length w)))) \<and>
      fst (get_ledger t c led_id w) = Inl (HTTPError (status_code (t (length w)))) \<and>
      fst (get_mutation t c mutation_id w) = Inl (HTTPError (status_code (t (length w)))) \<and>
      fst (get_outstanding_invoices t c w) = Inl (HTTPError (status_code (t (length w)))) \<and>
      fst (get_relation t c rel_id w) = Inl (HTTPError (status_code (t (length w)))))"
proof -
  obtain hs where hs: "get_headers c = Inr hs"
    using assms by (simp add: get_headers_def)
  note outcome = get_cost_centers_outcome [OF hs] get_cost_center_outcome [OF hs] get_invoices_outcome [OF hs] get_ledgers_outcome [OF hs] get_ledger_outcome [OF hs] get_mutation_outcome [OF hs] get_outstanding_invoices_outcome [OF hs] get_relation_outcome [OF hs] get_relations_outcome [OF hs]
  show ?thesis
    unfolding outcome
    by (simp add: response_json_def raise_for_status_def)
qed

text \<open>
  Claim C7. The claim holds for status 200 and, for the accessors that call
  \<open>raise_for_status\<close>, for the statuses from 400 to 599 (\<open>accessors_pass_body_or_raise\<close>). It
  fails in two places. \<open>get_relations\<close> lacks the call of \<open>raise_for_status\<close> that its eight
  siblings have: on status 500 it returns an empty dict and raises nothing. And the eight
  siblings raise nothing on a status other than 200 outside 400 to 599, where
  \<open>raise_for_status\<close> returns: on status 204 \<open>get_cost_centers\<close> returns an empty dict.
\<close>

theorem accessors_non_200_return_empty:
  "get_relations (\<lambda>n. \<lparr>status_code = 500, body = None\<rparr>)
     ((new_client (PStr ''key'') (PStr ''app'') ''v1'')\<lparr>session_token := PStr ''tok''\<rparr>) []
   = (Inr (PDict []),
      [\<lparr>http_method = GET, url = ''https://api.e-boekhouden.nl/v1/relation'',
         headers = [(''accept'', Text ''application/json''),
                    (''Content-Type'', Text ''application/json''),
                    (''Authorization'', Bearer (PStr ''tok''))],
         params = [], json_payload = PNone, timeout = 10\<rparr>])
   \<and> get_cost_centers (\<lambda>n. \<lparr>status_code = 204, body = None\<rparr>)
     ((new_client (PStr ''key'') (PStr ''app'') ''v1'')\<lparr>session_token := PStr ''tok''\<rparr>) []
   = (Inr (PDict []),
      [\<lparr>http_method = GET, url = ''https://api.e-boekhouden.nl/v1/costcenter'',
         headers = [(''accept'', Text ''application/json''),
                    (''Content-Type'', Text ''application/json''),
                    (''Authorization'', Bearer (PStr ''tok''))],
         params = [], json_payload = PNone, timeout = 10\<rparr>])"
  by (simp add: get_relations_def get_cost_centers_def get_headers_def requests_get_def
        requests_send_def raise_for_status_def new_client_def BASE_URL_def)

section \<open>Authentication answered without a token\<close>

text \<open>
  Claim C9, as stated, fails in its last part: after an authentication answered with
  status 200 and a body without the key \<open>token\<close>, a call of \<open>get_mutations\<close> with a start
  date and no operator fails with the error of the date filter, which is built before the
  headers, not with the session-state error.
\<close>

theorem get_mutations_after_tokenless_authentication:
  "fst (authenticate (\<lambda>n. \<lparr>status_code = 200, body = Some (PDict [])\<rparr>) (new_client (PStr ''key'') (PStr ''app'') ''v1'') []) = Inr ()
   \<and> session_token (fst (snd (authenticate (\<lambda>n. \<lparr>status_code = 200, body = Some (PDict [])\<rparr>)
         (new_client (PStr ''key'') (PStr ''app'') ''v1'') []))) = PNone
   \<and> get_mutations (\<lambda>n. \<lparr>status_code = 200, body = Some (PDict [])\<rparr>)
       (fst (snd (authenticate (\<lambda>n. \<lparr>status_code = 200, body = Some (PDict [])\<rparr>) (new_client (PStr ''key'') (PStr ''app'') ''v1'') [])))
       (Some ''2024-01-01'') None None []
     = Some (Inl (ValueError ''Operator is required for date filtering on date''), [])"
  by (simp add: authenticate_def requests_post_def requests_send_def response_json_def
        get_mutations_def get_date_filter_def)

text \<open>
  Claim C9, amended. If the answer to the authentication request has status 200 and a JSON
  object without the key \<open>token\<close> as body, \<open>_authenticate\<close> returns without raising and the
  session token is \<open>None\<close>. Every later resource call then fails with a \<open>ValueError\<close> and
  issues no request, whatever the service would answer: with the session-state error,
  except that \<open>get_mutations\<close> called with dates that the date filter rejects fails with the
  error of the date filter.
\<close>

theorem authenticate_without_token_key:
  assumes "status_code (t (length w)) = 200"
    and "body (t (length w)) = Some (PDict d)"
    and "map_of d ''token'' = None"
  shows "fst (authenticate t c w) = Inr ()
   \<and> session_token (fst (snd (authenticate t c w))) = PNone
   \<and> get_cost_centers t2 (fst (snd (authenticate t c w))) w2 = (Inl (ValueError ''Authentication required. Call authenticate() first.''), w2) \<and>
   get_cost_center t2 (fst (snd (authenticate t c w))) cc_id w2 = (Inl (ValueError ''Authentication required. Call authenticate() first.''), w2) \<and>
   get_invoices t2 (fst (snd (authenticate t c w))) w2 = (Inl (ValueError ''Authentication required. Call authenticate() first.''), w2) \<and>
   get_ledgers t2 (fst (snd (authenticate t c w))) w2 = (Inl (ValueError ''Authentication required. Call authenticate() first.''), w2) \<and>
   get_ledger t2 (fst (snd (authenticate t c w))) led_id w2 = (Inl (ValueError ''Authentication required. Call authenticate() first.''), w2) \<and>
   get_mutation t2 (fst (snd (authenticate t c w))) mutation_id w2 = (Inl (ValueError ''Authentication required. Call authenticate() first.''), w2) \<and>
   get_outstanding_invoices t2 (fst (snd (authenticate t c w))) w2 = (Inl (ValueError ''Authentication required. Call authenticate() first.''), w2) \<and>
   get_relation t2 (fst (snd (authenticate t c w))) rel_id w2 = (Inl (ValueError ''Authentication required. Call authenticate() first.''), w2) \<and>
   get_relations t2 (fst (snd (authenticate t c w))) w2 = (Inl (ValueError ''Authentication required. Call authenticate() first.''), w2)
   \<and> get_mutations t2 (fst (snd (authenticate t c w))) start_date end_date date_range w2 =
       Some (Inl (case (if str_truthy start_date \<or> str_truthy end_date
                        then get_date_filter ''date'' date_range start_date end_date
                        else Inr [])
                  of Inl e \<Rightarrow> e | Inr _ \<Rightarrow> (ValueError ''Authentication required. Call authenticate() first.'')), w2)"
proof -
  have auth: "authenticate t c w =
         (Inr (), c\<lparr>session_token := PNone\<rparr>,
          w @ [\<lparr>http_method = POST, url = api_url c @ ''/session'',
                 headers = [(''accept'', Text ''application/json''),
                            (''Content-Type'', Text ''application/json'')],
                 params = [],
                 json_payload = PDict [(''accessToken'', access_token c), (''source'', source c)],
                 timeout = 10\<rparr>])"
    using authenticate_ok [where t = t and w = w and d = d and c = c] assms by simp
  have h: "get_headers (c\<lparr>session_token := PNone\<rparr>) = Inl (ValueError ''Authentication required. Call authenticate() first.'')"
    by (simp add: get_headers_def)
  show ?thesis
    unfolding auth fst_conv snd_conv
    by (simp add: h get_mutations_unauthenticated get_cost_centers_unauthenticated get_cost_center_unauthenticated get_invoices_unauthenticated get_ledgers_unauthenticated get_ledger_unauthenticated get_mutation_unauthenticated get_outstanding_invoices_unauthenticated get_relation_unauthenticated get_relations_unauthenticated)
qed

theorem authenticate_without_token_key_witness:
  "fst (authenticate (\<lambda>n. \<lparr>status_code = 200, body = Some (PDict [(''user'', PStr ''x'')])\<rparr>)
          (new_client (PStr ''key'') (PStr ''app'') ''v1'') []) = Inr ()
   \<and> session_token (fst (snd (authenticate
          (\<lambda>n. \<lparr>status_code = 200, body = Some (PDict [(''user'', PStr ''x'')])\<rparr>)
          (new_client (PStr ''key'') (PStr ''app'') ''v1'') []))) = PNone
   \<and> get_ledgers (\<lambda>n. \<lparr>status_code = 200, body = Some (PDict [])\<rparr>)
       (fst (snd (authenticate
          (\<lambda>n. \<lparr>status_code = 200, body = Some (PDict [(''user'', PStr ''x'')])\<rparr>)
          (new_client (PStr ''key'') (PStr ''app'') ''v1'') []))) []
     = (Inl (ValueError ''Authentication required. Call authenticate() first.''), [])"
  using authenticate_without_token_key
          [where t = "\<lambda>n. \<lparr>status_code = 200, body = Some (PDict [(''user'', PStr ''x'')])\<rparr>"
             and w = "[]" and d = "[(''user'', PStr ''x'')]"
             and c = "new_client (PStr ''key'') (PStr ''app'') ''v1''"
             and ?t2.0 = "\<lambda>n. \<lparr>status_code = 200, body = Some (PDict [])\<rparr>" and ?w2.0 = "[]"]
  by simp

end
